theory Spec2Isabelle
  imports Complex_Main "HOL-Library.AList"
begin

section \<open>Clickstream benchmark data generator (src/data_generation/generator.py)\<close>

text \<open>
  A shallow embedding of \<^verbatim>\<open>generator.py\<close>. The program draws from three sources of
  randomness (the global \<^verbatim>\<open>random\<close> module, the generator shared by all \<^verbatim>\<open>Faker\<close>
  instances, and \<^verbatim>\<open>os.urandom\<close>, which \<^verbatim>\<open>uuid.uuid4\<close> reads) and writes files. All of
  that is explicit state: a \<open>world\<close> record that every operation takes and returns.
  Exceptions are values of type \<open>error\<close>; an operation is a function
  \<open>world \<Rightarrow> (error + 'a) \<times> world\<close>, so that the state reached when an exception
  propagates can be inspected.
\<close>

subsection \<open>Errors\<close>

text \<open>
  The \<^verbatim>\<open>ValueError\<close> for a bad size carries its message text. The one for unsupported
  formats interpolates two Python sets, whose printing order is not fixed, so it carries
  the two sets themselves.
\<close>

datatype error =
    ValueError_invalid_size string
  | ValueError_unsupported_formats "string set" "string set"
  | ValueError_empty_range
  | IndexError
  | OverflowError
  | FileNotFoundError

subsection \<open>DataSize and the constant tables\<close>

datatype DataSize = SMALL | MEDIUM | LARGE

fun DataSize_value :: "DataSize \<Rightarrow> string" where
  "DataSize_value SMALL = ''small''"
| "DataSize_value MEDIUM = ''medium''"
| "DataSize_value LARGE = ''large''"

definition DataSize_members :: "DataSize list" where
  "DataSize_members = [SMALL, MEDIUM, LARGE]"

text \<open>\<^verbatim>\<open>DataSize(size)\<close>: the member with that value; \<open>None\<close> stands for the
  \<^verbatim>\<open>ValueError\<close> the enum raises when there is none.\<close>

definition DataSize_of :: "string \<Rightarrow> DataSize option" where
  "DataSize_of s = find (\<lambda>m. DataSize_value m = s) DataSize_members"

fun SIZE_RECORD_COUNTS :: "DataSize \<Rightarrow> nat" where
  "SIZE_RECORD_COUNTS SMALL = 100000"
| "SIZE_RECORD_COUNTS MEDIUM = 10000000"
| "SIZE_RECORD_COUNTS LARGE = 100000000"

definition PAGES :: "string list" where
  "PAGES = [''/'', ''/home'', ''/products'', ''/about'', ''/contact'', ''/login'',
            ''/search'', ''/cart'', ''/checkout'']"

definition COUNTRIES :: "string list" where
  "COUNTRIES = [''US'', ''CA'', ''GB'', ''DE'', ''FR'', ''IT'', ''ES'', ''AU'', ''JP'']"

definition DEVICES :: "string list" where
  "DEVICES = [''desktop'', ''mobile'', ''tablet'']"

subsection \<open>Strings\<close>

definition digit_char :: "nat \<Rightarrow> char" where
  "digit_char d = ''0123456789abcdef'' ! (d mod 16)"

text \<open>\<^verbatim>\<open>str(n)\<close> for a natural number.\<close>

fun str_nat :: "nat \<Rightarrow> string" where
  "str_nat n = (if n < 10 then [digit_char n] else str_nat (n div 10) @ [digit_char (n mod 10)])"

declare str_nat.simps [simp del]

text \<open>Zero-padded decimal of width \<open>k\<close> (\<^verbatim>\<open>%02d\<close>, \<^verbatim>\<open>%04d\<close>).\<close>

definition zero_pad :: "nat \<Rightarrow> nat \<Rightarrow> string" where
  "zero_pad k n = replicate (k - length (str_nat n)) CHR ''0'' @ str_nat n"

text \<open>\<^verbatim>\<open>sep.join(xs)\<close>.\<close>

fun join :: "string \<Rightarrow> string list \<Rightarrow> string" where
  "join sep [] = []"
| "join sep [x] = x"
| "join sep (x # y # ys) = x @ sep @ join sep (y # ys)"

text \<open>\<^verbatim>\<open>repr\<close> of a list of strings without quotes or backslashes:
  \<^verbatim>\<open>['small', 'medium', 'large']\<close>.\<close>

definition repr_str_list :: "string list \<Rightarrow> string" where
  "repr_str_list xs = ''['' @ join '', '' (map (\<lambda>x. [CHR 0x27] @ x @ [CHR 0x27]) xs) @ '']''"

subsection \<open>datetime and timedelta\<close>

text \<open>
  A naive \<^verbatim>\<open>datetime\<close> is the number of microseconds since 0001-01-01T00:00:00, a
  \<^verbatim>\<open>timedelta\<close> a number of microseconds. Both types are bounded in Python and the
  constructors and the addition raise \<^verbatim>\<open>OverflowError\<close> outside the bounds:
  \<^verbatim>\<open>date.max\<close> is 9999-12-31 (ordinal 3652059) and a \<^verbatim>\<open>timedelta\<close> holds at most
  999999999 days in either direction.
\<close>

type_synonym datetime = int
type_synonym timedelta = int

definition US_PER_SECOND :: int where
  "US_PER_SECOND = 1000000"

definition US_PER_DAY :: int where
  "US_PER_DAY = 86400 * 1000000"

definition MAXORDINAL :: int where
  "MAXORDINAL = 3652059"

definition datetime_max :: datetime where
  "datetime_max = MAXORDINAL * US_PER_DAY - 1"

definition timedelta_days :: "int \<Rightarrow> error + timedelta" where
  "timedelta_days d =
     (if \<bar>d\<bar> > 999999999 then Inl OverflowError else Inr (d * US_PER_DAY))"

definition timedelta_seconds :: "int \<Rightarrow> error + timedelta" where
  "timedelta_seconds s =
     (if \<bar>s div 86400\<bar> > 999999999 then Inl OverflowError else Inr (s * US_PER_SECOND))"

definition datetime_add :: "datetime \<Rightarrow> timedelta \<Rightarrow> error + datetime" where
  "datetime_add t d =
     (if 0 \<le> t + d \<and> t + d \<le> datetime_max then Inr (t + d) else Inl OverflowError)"

text \<open>\<^verbatim>\<open>int(delta.total_seconds())\<close>: truncation towards zero.\<close>

definition total_seconds_int :: "timedelta \<Rightarrow> int" where
  "total_seconds_int d = (if 0 \<le> d then d div US_PER_SECOND else - ((- d) div US_PER_SECOND))"

text \<open>\<^verbatim>\<open>date.replace(hour=0, minute=0, second=0, microsecond=0)\<close>.\<close>

definition start_of_day :: "datetime \<Rightarrow> datetime" where
  "start_of_day t = t - t mod US_PER_DAY"

text \<open>The proleptic Gregorian calendar of the \<^verbatim>\<open>datetime\<close> module.\<close>

definition is_leap :: "int \<Rightarrow> bool" where
  "is_leap y = (y mod 4 = 0 \<and> (y mod 100 \<noteq> 0 \<or> y mod 400 = 0))"

definition days_before_year :: "int \<Rightarrow> int" where
  "days_before_year year =
     (let y = year - 1 in y * 365 + y div 4 - y div 100 + y div 400)"

definition DAYS_IN_MONTH :: "int list" where
  "DAYS_IN_MONTH = [0, 31, 28, 31, 30, 31, 30, 31, 31, 30, 31, 30, 31]"

definition DAYS_BEFORE_MONTH :: "int list" where
  "DAYS_BEFORE_MONTH = [0, 0, 31, 59, 90, 120, 151, 181, 212, 243, 273, 304, 334]"

definition days_before_month :: "int \<Rightarrow> nat \<Rightarrow> int" where
  "days_before_month year month =
     DAYS_BEFORE_MONTH ! month + (if month > 2 \<and> is_leap year then 1 else 0)"

definition ymd2ord :: "int \<Rightarrow> nat \<Rightarrow> int \<Rightarrow> int" where
  "ymd2ord year month day = days_before_year year + days_before_month year month + day"

text \<open>\<^verbatim>\<open>datetime(year, month, day)\<close>, for a valid date (the program only builds the
  constants 2024-01-01 and 2024-02-01).\<close>

definition datetime_ymd :: "int \<Rightarrow> nat \<Rightarrow> int \<Rightarrow> datetime" where
  "datetime_ymd year month day = (ymd2ord year month day - 1) * US_PER_DAY"

definition ord2ymd :: "int \<Rightarrow> int \<times> nat \<times> int" where
  "ord2ymd ordinal =
     (let n0 = ordinal - 1;
          n400 = n0 div 146097; n1 = n0 mod 146097;
          n100 = n1 div 36524; n2 = n1 mod 36524;
          n4 = n2 div 1461; n3 = n2 mod 1461;
          n1y = n3 div 365; n = n3 mod 365;
          year = n400 * 400 + 1 + n100 * 100 + n4 * 4 + n1y
      in if n1y = 4 \<or> n100 = 4 then (year - 1, 12, 31)
         else
           let leapyear = (n1y = 3 \<and> (n4 \<noteq> 24 \<or> n100 = 3));
               month = nat ((n + 50) div 32);
               preceding = DAYS_BEFORE_MONTH ! month + (if month > 2 \<and> leapyear then 1 else 0)
           in if preceding > n
              then
                let month' = month - 1;
                    preceding' = preceding -
                      (DAYS_IN_MONTH ! month' + (if month' = 2 \<and> leapyear then 1 else 0))
                in (year, month', n - preceding' + 1)
              else (year, month, n - preceding + 1))"

text \<open>\<^verbatim>\<open>strftime("%Y-%m-%d")\<close>.\<close>

definition strftime_Ymd :: "datetime \<Rightarrow> string" where
  "strftime_Ymd t =
     (case ord2ymd (t div US_PER_DAY + 1) of
        (y, m, d) \<Rightarrow> zero_pad 4 (nat y) @ ''-'' @ zero_pad 2 m @ ''-'' @ zero_pad 2 (nat d))"

subsection \<open>Paths\<close>

text \<open>
  A \<^verbatim>\<open>pathlib\<close> path on POSIX: a root (empty, one slash or two) and the components.
  Empty components and single dots are dropped when a string is parsed.
\<close>

record path =
  root :: string
  parts :: "string list"

fun split_slash :: "string \<Rightarrow> string list" where
  "split_slash [] = [[]]"
| "split_slash (c # cs) =
     (if c = CHR ''/'' then [] # split_slash cs
      else (case split_slash cs of [] \<Rightarrow> [[c]] | x # xs \<Rightarrow> (c # x) # xs))"

definition Path :: "string \<Rightarrow> path" where
  "Path s =
     \<lparr> root = (if take 2 s = ''//'' \<and> take 3 s \<noteq> ''///'' then ''//''
                else if take 1 s = ''/'' then ''/'' else ''''),
       parts = filter (\<lambda>c. c \<noteq> '''' \<and> c \<noteq> ''.'') (split_slash s) \<rparr>"

text \<open>\<^verbatim>\<open>p / name\<close>, for a name that is one relative component: the directory and file
  names this program joins contain no separator.\<close>

definition path_div :: "path \<Rightarrow> string \<Rightarrow> path" where
  "path_div p name = p\<lparr>parts := parts p @ [name]\<rparr>"

definition path_str :: "path \<Rightarrow> string" where
  "path_str p =
     (if root p = '''' \<and> parts p = [] then ''.'' else root p @ join ''/'' (parts p))"

subsection \<open>Events, tables and files\<close>

text \<open>An event is a Python dict from column name to value, in insertion order.\<close>

datatype pyval = PyStr string | PyDatetime datetime | PyNone

type_synonym event = "(string \<times> pyval) list"

text \<open>
  The writer is a black box that takes a table and a path. A file is what was handed to
  it: the format, the column names (those of the first row) and the rows.
\<close>

datatype disk_file = CSV_file "string list" "event list" | Parquet_file "string list" "event list"

fun file_columns :: "disk_file \<Rightarrow> string list" where
  "file_columns (CSV_file cs rs) = cs"
| "file_columns (Parquet_file cs rs) = cs"

fun file_rows :: "disk_file \<Rightarrow> event list" where
  "file_rows (CSV_file cs rs) = rs"
| "file_rows (Parquet_file cs rs) = rs"

record DataFrame =
  df_columns :: "string list"
  df_rows :: "event list"

text \<open>\<^verbatim>\<open>pl.DataFrame(events)\<close>.\<close>

definition DataFrame_of :: "event list \<Rightarrow> DataFrame" where
  "DataFrame_of events =
     \<lparr> df_columns = (case events of [] \<Rightarrow> [] | e # _ \<Rightarrow> map fst e), df_rows = events \<rparr>"

subsection \<open>The world\<close>

text \<open>
  \<^item> \<open>py_random\<close>: the outputs the global \<^verbatim>\<open>random\<close> generator will give, from now on;
  \<^item> \<open>faker_random\<close>: the same for the generator shared by \<^verbatim>\<open>Faker\<close> instances;
  \<^item> \<open>os_urandom\<close>: the bytes the operating system will give;
  \<^item> \<open>mersenne\<close>: the stream a \<^verbatim>\<open>random.Random\<close> gives after \<^verbatim>\<open>seed(s)\<close>;
  \<^item> \<open>fs_dirs\<close>, \<open>fs_files\<close>: the directories and files that exist;
  \<^item> \<open>st_size\<close>: the size in bytes of a file's serialisation.
  Storage never fails in this model: no permission or space errors.
\<close>

record world =
  py_random :: "nat \<Rightarrow> nat"
  faker_random :: "nat \<Rightarrow> nat"
  os_urandom :: "nat \<Rightarrow> nat"
  mersenne :: "int \<Rightarrow> nat \<Rightarrow> nat"
  fs_dirs :: "path set"
  fs_files :: "path \<Rightarrow> disk_file option"
  st_size :: "disk_file \<Rightarrow> nat"

type_synonym 'a py = "world \<Rightarrow> (error + 'a) \<times> world"

definition py_return :: "'a \<Rightarrow> 'a py" where
  "py_return x w = (Inr x, w)"

definition py_raise :: "error \<Rightarrow> 'a py" where
  "py_raise e w = (Inl e, w)"

definition py_bind :: "'a py \<Rightarrow> ('a \<Rightarrow> 'b py) \<Rightarrow> 'b py" where
  "py_bind m f w = (case m w of (Inl e, w') \<Rightarrow> (Inl e, w') | (Inr x, w') \<Rightarrow> f x w')"

definition py_lift :: "error + 'a \<Rightarrow> 'a py" where
  "py_lift r w = (r, w)"

text \<open>The stream \<open>t\<close> after \<open>k\<close> of its outputs were taken.\<close>

definition tape_drop :: "nat \<Rightarrow> (nat \<Rightarrow> nat) \<Rightarrow> (nat \<Rightarrow> nat)" where
  "tape_drop k t = (\<lambda>i. t (i + k))"

subsection \<open>The library calls\<close>

definition random_next :: "nat py" where
  "random_next w = (Inr (py_random w 0), w\<lparr>py_random := tape_drop 1 (py_random w)\<rparr>)"

text \<open>\<^verbatim>\<open>random.randint(a, b)\<close>: an integer in \<open>[a, b]\<close>, both ends included.\<close>

definition randint :: "int \<Rightarrow> int \<Rightarrow> int py" where
  "randint a b =
     (if b < a then py_raise ValueError_empty_range
      else py_bind random_next (\<lambda>r. py_return (a + int r mod (b - a + 1))))"

text \<open>\<^verbatim>\<open>random.choice(seq)\<close>.\<close>

definition choice :: "'a list \<Rightarrow> 'a py" where
  "choice xs =
     (if xs = [] then py_raise IndexError
      else py_bind random_next (\<lambda>r. py_return (xs ! (r mod length xs))))"

text \<open>\<^verbatim>\<open>os.urandom(n)\<close>.\<close>

definition urandom :: "nat \<Rightarrow> nat list py" where
  "urandom n w =
     (Inr (map (\<lambda>i. os_urandom w i mod 256) [0..<n]),
      w\<lparr>os_urandom := tape_drop n (os_urandom w)\<rparr>)"

definition hex_byte :: "nat \<Rightarrow> string" where
  "hex_byte b = [digit_char (b div 16 mod 16), digit_char (b mod 16)]"

text \<open>\<^verbatim>\<open>str(UUID(bytes=bs, version=4))\<close>: the version and variant bits are set in bytes
  6 and 8, and the 16 bytes are printed in hexadecimal in groups of 4, 2, 2, 2 and 6.\<close>

definition uuid_str :: "nat list \<Rightarrow> string" where
  "uuid_str bs =
     (let bs' = bs[6 := bs ! 6 mod 16 + 64, 8 := bs ! 8 mod 64 + 128];
          h = map hex_byte bs'
      in concat (take 4 h) @ ''-'' @ concat (take 2 (drop 4 h)) @ ''-'' @
         concat (take 2 (drop 6 h)) @ ''-'' @ concat (take 2 (drop 8 h)) @ ''-'' @
         concat (drop 10 h))"

text \<open>\<^verbatim>\<open>str(uuid.uuid4())\<close>: sixteen bytes of \<^verbatim>\<open>os.urandom\<close>.\<close>

definition uuid4 :: "string py" where
  "uuid4 = py_bind (urandom 16) (\<lambda>bs. py_return (uuid_str bs))"

text \<open>\<^verbatim>\<open>faker.ipv4()\<close>: an address made from the next output of Faker's generator. Which
  address Faker derives from it is not modelled beyond its dotted-quad form.\<close>

definition ipv4_str :: "nat \<Rightarrow> string" where
  "ipv4_str r =
     join ''.'' (map str_nat [r div 16777216 mod 256, r div 65536 mod 256, r div 256 mod 256, r mod 256])"

definition faker_ipv4 :: "string py" where
  "faker_ipv4 w =
     (Inr (ipv4_str (faker_random w 0)), w\<lparr>faker_random := tape_drop 1 (faker_random w)\<rparr>)"

text \<open>\<^verbatim>\<open>random.seed(s)\<close> and \<^verbatim>\<open>Faker.seed(s)\<close>.\<close>

definition random_seed :: "int \<Rightarrow> unit py" where
  "random_seed s w = (Inr (), w\<lparr>py_random := mersenne w s\<rparr>)"

definition Faker_seed :: "int \<Rightarrow> unit py" where
  "Faker_seed s w = (Inr (), w\<lparr>faker_random := mersenne w s\<rparr>)"

text \<open>\<^verbatim>\<open>path.mkdir(parents=True, exist_ok=True)\<close>: the directory and its ancestors exist
  afterwards.\<close>

definition mkdir :: "path \<Rightarrow> unit py" where
  "mkdir p w =
     (Inr (), w\<lparr>fs_dirs := fs_dirs w \<union> (\<lambda>k. p\<lparr>parts := take k (parts p)\<rparr>) ` {0..length (parts p)}\<rparr>)"

definition write_csv :: "DataFrame \<Rightarrow> path \<Rightarrow> unit py" where
  "write_csv df p w =
     (Inr (), w\<lparr>fs_files := (fs_files w)(p \<mapsto> CSV_file (df_columns df) (df_rows df))\<rparr>)"

definition write_parquet :: "DataFrame \<Rightarrow> path \<Rightarrow> unit py" where
  "write_parquet df p w =
     (Inr (), w\<lparr>fs_files := (fs_files w)(p \<mapsto> Parquet_file (df_columns df) (df_rows df))\<rparr>)"

text \<open>\<^verbatim>\<open>path.stat().st_size\<close>.\<close>

definition stat_st_size :: "path \<Rightarrow> nat py" where
  "stat_st_size p w =
     (case fs_files w p of None \<Rightarrow> (Inl FileNotFoundError, w) | Some f \<Rightarrow> (Inr (st_size w f), w))"

subsection \<open>ClickstreamDataGenerator\<close>

record ClickstreamDataGenerator =
  size_of_generator :: DataSize
  record_count :: nat

text \<open>\<^verbatim>\<open>__init__\<close>: with a seed, Faker's generator and the \<^verbatim>\<open>random\<close> module are seeded.
  Nothing touches \<open>os_urandom\<close>.\<close>

definition generator_init :: "DataSize \<Rightarrow> int option \<Rightarrow> ClickstreamDataGenerator py" where
  "generator_init sz seed =
     (let self = \<lparr> size_of_generator = sz, record_count = SIZE_RECORD_COUNTS sz \<rparr>
      in case seed of
           None \<Rightarrow> py_return self
         | Some s \<Rightarrow> py_bind (Faker_seed s) (\<lambda>_. py_bind (random_seed s) (\<lambda>_. py_return self)))"

text \<open>\<^verbatim>\<open>_generate_event\<close>: the dict literal is evaluated in key order.\<close>

definition generate_event :: "datetime \<Rightarrow> event py" where
  "generate_event timestamp =
     py_bind uuid4 (\<lambda>event_id.
     py_bind uuid4 (\<lambda>user_id.
     py_bind uuid4 (\<lambda>session_id.
     py_bind (choice PAGES) (\<lambda>page_url.
     py_bind (choice COUNTRIES) (\<lambda>country.
     py_bind (choice DEVICES) (\<lambda>device.
     py_bind faker_ipv4 (\<lambda>ip_address.
     py_return
       [(''event_id'', PyStr event_id),
        (''user_id'', PyStr user_id),
        (''session_id'', PyStr session_id),
        (''timestamp'', PyDatetime timestamp),
        (''page_url'', PyStr page_url),
        (''country'', PyStr country),
        (''device'', PyStr device),
        (''ip_address'', PyStr ip_address)])))))))"

text \<open>
  The loop of both \<^verbatim>\<open>generate_bulk_data\<close> and \<^verbatim>\<open>generate_incremental_data\<close>, \<open>n\<close> times:
  \<^verbatim>\<open>random_seconds = random.randint(0, hi)\<close>,
  \<^verbatim>\<open>timestamp = base + timedelta(seconds=random_seconds)\<close>,
  \<^verbatim>\<open>events.append(self._generate_event(timestamp))\<close>.
\<close>

fun events_loop :: "nat \<Rightarrow> int \<Rightarrow> datetime \<Rightarrow> event list py" where
  "events_loop 0 hi base = py_return []"
| "events_loop (Suc n) hi base =
     py_bind (randint 0 hi) (\<lambda>random_seconds.
     py_bind (py_lift (timedelta_seconds random_seconds)) (\<lambda>delta.
     py_bind (py_lift (datetime_add base delta)) (\<lambda>timestamp.
     py_bind (generate_event timestamp) (\<lambda>e.
     py_bind (events_loop n hi base) (\<lambda>events.
     py_return (e # events))))))"

definition generate_bulk_data :: "ClickstreamDataGenerator \<Rightarrow> datetime \<Rightarrow> int \<Rightarrow> event list py" where
  "generate_bulk_data self start_date days =
     py_bind (py_lift (timedelta_days days)) (\<lambda>delta.
     py_bind (py_lift (datetime_add start_date delta)) (\<lambda>end_date.
     events_loop (record_count self) (total_seconds_int (end_date - start_date)) start_date))"

definition generate_incremental_data :: "ClickstreamDataGenerator \<Rightarrow> datetime \<Rightarrow> int \<Rightarrow> event list py" where
  "generate_incremental_data self date records_per_day =
     events_loop (nat records_per_day) 86400 (start_of_day date)"

subsection \<open>generate\_benchmark\_data\<close>

text \<open>
  The manifest and its entries are Python dicts with fixed string keys; they are records
  here, the field \<open>meta_path\<close> for the key \<^verbatim>\<open>"path"\<close>, \<open>m_size\<close> for the key \<^verbatim>\<open>"size"\<close>
  of the manifest, and so on. \<^verbatim>\<open>results["files"]\<close> is keyed by the format strings the caller
  gave, so it is an association list, updated as a dict is (a key that is already there keeps
  its place and gets the new value). \<^verbatim>\<open>size_mb\<close> is a quotient by \<open>2 ^ 20\<close>, a rational.
\<close>

record file_meta =
  meta_path :: string
  meta_records :: nat
  meta_size_mb :: rat

record inc_file_meta = file_meta +
  meta_date :: string

record format_results =
  fr_bulk :: file_meta
  fr_incremental :: "inc_file_meta list"

record manifest =
  m_size :: string
  m_bulk_record_count :: nat
  m_incremental_days :: int
  m_files :: "(string \<times> format_results) list"

definition supported_formats :: "string set" where
  "supported_formats = {''csv'', ''parquet''}"

text \<open>\<^verbatim>\<open>range(n)\<close>.\<close>

definition py_range :: "int \<Rightarrow> int list" where
  "py_range n = map int [0..<nat n]"

text \<open>\<^verbatim>\<open>if format_type == "csv": df.write_csv(p) else: df.write_parquet(p)\<close>.\<close>

definition write_frame :: "string \<Rightarrow> DataFrame \<Rightarrow> path \<Rightarrow> unit py" where
  "write_frame format_type df p =
     (if format_type = ''csv'' then write_csv df p else write_parquet df p)"

definition size_in_mb :: "nat \<Rightarrow> rat" where
  "size_in_mb st = of_nat st / (1024 * 1024)"

text \<open>The body of \<^verbatim>\<open>for day in range(incremental_days)\<close>.\<close>

definition incremental_step ::
  "ClickstreamDataGenerator \<Rightarrow> string \<Rightarrow> string \<Rightarrow> path \<Rightarrow> datetime \<Rightarrow> int \<Rightarrow> inc_file_meta py" where
  "incremental_step generator size_arg format_type incremental_dir incremental_start_date day =
     py_bind (py_lift (timedelta_days day)) (\<lambda>delta.
     py_bind (py_lift (datetime_add incremental_start_date delta)) (\<lambda>current_date.
     let date_str = strftime_Ymd current_date in
     py_bind (generate_incremental_data generator current_date 1000) (\<lambda>daily_events.
     let incremental_filename = ''incremental_'' @ date_str @ ''_'' @ size_arg @ ''.'' @ format_type;
         incremental_file_path = path_div incremental_dir incremental_filename in
     py_bind (write_frame format_type (DataFrame_of daily_events) incremental_file_path) (\<lambda>_.
     py_bind (stat_st_size incremental_file_path) (\<lambda>st.
     py_return
       \<lparr> meta_path = path_str incremental_file_path,
         meta_records = length daily_events,
         meta_size_mb = size_in_mb st,
         meta_date = date_str \<rparr>)))))"

text \<open>The day loop: the entries are appended in day order.\<close>

fun incremental_loop :: "(int \<Rightarrow> inc_file_meta py) \<Rightarrow> int list \<Rightarrow> inc_file_meta list py" where
  "incremental_loop step [] = py_return []"
| "incremental_loop step (day # days) =
     py_bind (step day) (\<lambda>entry.
     py_bind (incremental_loop step days) (\<lambda>entries.
     py_return (entry # entries)))"

text \<open>The body of \<^verbatim>\<open>for format_type in formats\<close>.\<close>

definition process_format ::
  "ClickstreamDataGenerator \<Rightarrow> string \<Rightarrow> path \<Rightarrow> path \<Rightarrow> event list \<Rightarrow> datetime \<Rightarrow> int \<Rightarrow> string
     \<Rightarrow> format_results py" where
  "process_format generator size_arg bulk_dir incremental_dir bulk_events incremental_start_date
       incremental_days format_type =
     (let bulk_filename = ''bulk_data_'' @ size_arg @ ''.'' @ format_type;
          bulk_file_path = path_div bulk_dir bulk_filename in
      py_bind (write_frame format_type (DataFrame_of bulk_events) bulk_file_path) (\<lambda>_.
      py_bind (stat_st_size bulk_file_path) (\<lambda>st.
      py_bind (incremental_loop
                 (incremental_step generator size_arg format_type incremental_dir incremental_start_date)
                 (py_range incremental_days)) (\<lambda>entries.
      py_return
        \<lparr> fr_bulk = \<lparr> meta_path = path_str bulk_file_path,
                      meta_records = length bulk_events,
                      meta_size_mb = size_in_mb st \<rparr>,
          fr_incremental = entries \<rparr>))))"

text \<open>The format loop: \<^verbatim>\<open>results["files"][format_type] = format_results\<close>.\<close>

fun formats_loop ::
  "(string \<Rightarrow> format_results py) \<Rightarrow> string list \<Rightarrow> (string \<times> format_results) list
     \<Rightarrow> (string \<times> format_results) list py" where
  "formats_loop body [] files = py_return files"
| "formats_loop body (format_type # rest) files =
     py_bind (body format_type) (\<lambda>format_results.
     formats_loop body rest (AList.update format_type format_results files))"

definition invalid_size_message :: string where
  "invalid_size_message =
     ''Invalid size. Must be one of '' @ repr_str_list (map DataSize_value DataSize_members)"

definition generate_benchmark_data ::
  "string \<Rightarrow> string \<Rightarrow> string list option \<Rightarrow> int option \<Rightarrow> int \<Rightarrow> manifest py" where
  "generate_benchmark_data size_arg output_dir formats_arg seed incremental_days =
     (let formats = (case formats_arg of None \<Rightarrow> [''csv'', ''parquet''] | Some fs \<Rightarrow> fs) in
      case DataSize_of size_arg of
        None \<Rightarrow> py_raise (ValueError_invalid_size invalid_size_message)
      | Some data_size \<Rightarrow>
          let invalid_formats = set formats - supported_formats in
          if invalid_formats \<noteq> {}
          then py_raise (ValueError_unsupported_formats invalid_formats supported_formats)
          else
            let output_path = Path output_dir;
                bulk_dir = path_div output_path ''bulk'';
                incremental_dir = path_div output_path ''incremental'' in
            py_bind (mkdir bulk_dir) (\<lambda>_.
            py_bind (mkdir incremental_dir) (\<lambda>_.
            py_bind (generator_init data_size seed) (\<lambda>generator.
            let bulk_start_date = datetime_ymd 2024 1 1 in
            py_bind (generate_bulk_data generator bulk_start_date 30) (\<lambda>bulk_events.
            let incremental_start_date = datetime_ymd 2024 2 1 in
            py_bind (formats_loop
                       (process_format generator size_arg bulk_dir incremental_dir bulk_events
                          incremental_start_date incremental_days)
                       formats []) (\<lambda>files.
            py_return
              \<lparr> m_size = size_arg,
                m_bulk_record_count = length bulk_events,
                m_incremental_days = incremental_days,
                m_files = files \<rparr>))))))"

section \<open>What the loops compute\<close>

text \<open>
  Each event takes a fixed number of outputs from each source: four from the \<^verbatim>\<open>random\<close>
  module (the offset and three choices), one from Faker and 48 bytes from the operating
  system. So the result of a loop can be written down without running it: \<open>batch\<close> is the
  list of events, \<open>after_events\<close> the world afterwards.
\<close>

definition urandom_bytes :: "(nat \<Rightarrow> nat) \<Rightarrow> nat list" where
  "urandom_bytes t = map (\<lambda>i. t i mod 256) [0..<16]"

definition event_of :: "datetime \<Rightarrow> world \<Rightarrow> event" where
  "event_of timestamp w =
     [(''event_id'', PyStr (uuid_str (urandom_bytes (os_urandom w)))),
      (''user_id'', PyStr (uuid_str (urandom_bytes (tape_drop 16 (os_urandom w))))),
      (''session_id'', PyStr (uuid_str (urandom_bytes (tape_drop 32 (os_urandom w))))),
      (''timestamp'', PyDatetime timestamp),
      (''page_url'', PyStr (PAGES ! (py_random w 0 mod 9))),
      (''country'', PyStr (COUNTRIES ! (py_random w 1 mod 9))),
      (''device'', PyStr (DEVICES ! (py_random w 2 mod 3))),
      (''ip_address'', PyStr (ipv4_str (faker_random w 0)))]"

definition after_draws :: "nat \<Rightarrow> nat \<Rightarrow> nat \<Rightarrow> world \<Rightarrow> world" where
  "after_draws a b c w =
     w\<lparr> py_random := tape_drop a (py_random w),
        faker_random := tape_drop b (faker_random w),
        os_urandom := tape_drop c (os_urandom w) \<rparr>"

definition after_events :: "nat \<Rightarrow> world \<Rightarrow> world" where
  "after_events n w =
     w\<lparr> py_random := tape_drop (4 * n) (py_random w),
        faker_random := tape_drop n (faker_random w),
        os_urandom := tape_drop (48 * n) (os_urandom w) \<rparr>"

definition first_timestamp :: "int \<Rightarrow> datetime \<Rightarrow> world \<Rightarrow> datetime" where
  "first_timestamp hi base w = base + (int (py_random w 0) mod (hi + 1)) * US_PER_SECOND"

fun batch :: "nat \<Rightarrow> int \<Rightarrow> datetime \<Rightarrow> world \<Rightarrow> event list" where
  "batch 0 hi base w = []"
| "batch (Suc n) hi base w =
     event_of (first_timestamp hi base w) (after_draws 1 0 0 w) # batch n hi base (after_events 1 w)"

definition loop_safe :: "int \<Rightarrow> datetime \<Rightarrow> bool" where
  "loop_safe hi base \<longleftrightarrow> 0 \<le> hi \<and> hi \<le> 86400 * 999999999 \<and> 0 \<le> base \<and> base + hi * US_PER_SECOND \<le> datetime_max"

text \<open>A concrete world for the examples: every stream counts upwards, the seeded stream
  starts at the seed, nothing is on disk and a file's size is its number of rows.\<close>

definition example_world :: world where
  "example_world =
     \<lparr> py_random = (\<lambda>i. i), faker_random = (\<lambda>i. i), os_urandom = (\<lambda>i. i),
       mersenne = (\<lambda>s i. nat \<bar>s\<bar> + i), fs_dirs = {}, fs_files = Map.empty,
       st_size = (\<lambda>f. length (file_rows f)) \<rparr>"

subsection \<open>The monad and the streams\<close>

lemma py_bind_return [simp]: "py_bind (py_return x) f = f x"
  by (rule ext) (simp add: py_bind_def py_return_def)

lemma py_bind_Inr: "m w = (Inr x, w1) \<Longrightarrow> py_bind m f w = f x w1"
  by (simp add: py_bind_def)

lemma py_bind_Inl: "m w = (Inl e, w1) \<Longrightarrow> py_bind m f w = (Inl e, w1)"
  by (simp add: py_bind_def)

lemma py_bind_InrD:
  "py_bind m f w = (Inr y, w') \<Longrightarrow> \<exists>x w1. m w = (Inr x, w1) \<and> f x w1 = (Inr y, w')"
  by (auto simp: py_bind_def split: prod.splits sum.splits)

lemma tape_drop_drop [simp]: "tape_drop a (tape_drop b t) = tape_drop (a + b) t"
  by (rule ext) (simp add: tape_drop_def add.assoc)

lemma tape_drop_0 [simp]: "tape_drop 0 t = t"
  by (simp add: tape_drop_def)

lemma tape_drop_apply: "tape_drop k t i = t (i + k)"
  by (simp add: tape_drop_def)

lemma uuid4_eq:
  "uuid4 w = (Inr (uuid_str (urandom_bytes (os_urandom w))), w\<lparr>os_urandom := tape_drop 16 (os_urandom w)\<rparr>)"
  by (simp add: uuid4_def urandom_def py_bind_def py_return_def urandom_bytes_def)

lemma choice_eq:
  "xs \<noteq> [] \<Longrightarrow> choice xs w = (Inr (xs ! (py_random w 0 mod length xs)), w\<lparr>py_random := tape_drop 1 (py_random w)\<rparr>)"
  by (simp add: choice_def random_next_def py_bind_def py_return_def)

lemma index_two: "f (Suc (Suc 0)) = f 2"
  by (simp add: numeral_2_eq_2)

lemma tape_drop_three: "tape_drop (Suc (Suc (Suc 0))) t = tape_drop 3 t"
  by (simp add: numeral_3_eq_3)

lemma generate_event_eq:
  "generate_event timestamp w = (Inr (event_of timestamp w), after_draws 3 1 48 w)"
  unfolding generate_event_def
  apply (simp add: py_bind_Inr [OF uuid4_eq] py_bind_Inr [OF choice_eq] PAGES_def COUNTRIES_def
      DEVICES_def)
  apply (simp add: py_bind_def faker_ipv4_def py_return_def event_of_def after_draws_def PAGES_def
      COUNTRIES_def DEVICES_def tape_drop_apply index_two tape_drop_three)
  done

lemma after_events_0 [simp]: "after_events 0 w = w"
  by (simp add: after_events_def)

lemma after_events_add: "after_events m (after_events n w) = after_events (m + n) w"
  by (simp add: after_events_def algebra_simps)

lemma after_draws_after_draws:
  "after_draws a b c (after_draws a' b' c' w) = after_draws (a + a') (b + b') (c + c') w"
  by (simp add: after_draws_def)

lemma after_events_eq_draws: "after_events n w = after_draws (4 * n) n (48 * n) w"
  by (simp add: after_events_def after_draws_def)

lemma randint_eq:
  "0 \<le> hi \<Longrightarrow> randint 0 hi w = (Inr (int (py_random w 0) mod (hi + 1)), after_draws 1 0 0 w)"
  by (simp add: randint_def random_next_def py_bind_def py_return_def after_draws_def)

lemma timestamp_step:
  assumes "loop_safe hi base" and r: "r = int k mod (hi + 1)"
  shows "timedelta_seconds r = Inr (r * US_PER_SECOND)"
    and "datetime_add base (r * US_PER_SECOND) = Inr (base + r * US_PER_SECOND)"
proof -
  from assms have hi: "0 \<le> hi" "hi \<le> 86400 * 999999999" "0 \<le> base" "base + hi * US_PER_SECOND \<le> datetime_max"
    by (simp_all add: loop_safe_def)
  have "int k mod (hi + 1) < hi + 1"
    using hi(1) by (intro pos_mod_bound) simp
  then have r1: "r \<le> hi" by (simp add: r)
  have r0: "0 \<le> r" using hi(1) by (simp add: r)
  have "r div 86400 \<le> 999999999" using r1 hi(2) by linarith
  moreover have "0 \<le> r div 86400" using r0 by simp
  ultimately show "timedelta_seconds r = Inr (r * US_PER_SECOND)"
    by (simp add: timedelta_seconds_def)
  have "r * US_PER_SECOND \<le> hi * US_PER_SECOND" using r1 by (simp add: US_PER_SECOND_def)
  moreover have "0 \<le> r * US_PER_SECOND" using r0 by (simp add: US_PER_SECOND_def)
  ultimately show "datetime_add base (r * US_PER_SECOND) = Inr (base + r * US_PER_SECOND)"
    using hi(3,4) by (simp add: datetime_add_def)
qed

lemma events_loop_eq:
  "loop_safe hi base \<Longrightarrow> events_loop n hi base w = (Inr (batch n hi base w), after_events n w)"
proof (induction n arbitrary: w)
  case 0
  show ?case by (simp add: py_return_def)
next
  case (Suc n)
  define r where "r = int (py_random w 0) mod (hi + 1)"
  have hi: "0 \<le> hi" using Suc.prems by (simp add: loop_safe_def)
  have s1: "randint 0 hi w = (Inr r, (after_draws (Suc 0) 0 0 w))"
    by (simp add: randint_eq [OF hi] r_def)
  note ts = timestamp_step [OF Suc.prems r_def]
  have s4: "generate_event (base + r * US_PER_SECOND) (after_draws (Suc 0) 0 0 w)
            = (Inr (event_of (first_timestamp hi base w) (after_draws (Suc 0) 0 0 w)), after_events (Suc 0) w)"
    by (simp add: generate_event_eq after_draws_after_draws after_events_eq_draws
        first_timestamp_def r_def)
  have s6: "events_loop n hi base (after_events (Suc 0) w)
            = (Inr (batch n hi base (after_events (Suc 0) w)), after_events (Suc n) w)"
    by (simp add: Suc.IH [OF Suc.prems] after_events_add)
  show ?case
    by (simp add: py_bind_def s1 py_lift_def ts s4 s6 py_return_def)
qed

subsection \<open>Events\<close>

lemma nth_mod_mem: "xs \<noteq> [] \<Longrightarrow> xs ! (k mod length xs) \<in> set xs"
  by simp

lemma event_of_keys:
  "map fst (event_of timestamp w) =
     [''event_id'', ''user_id'', ''session_id'', ''timestamp'', ''page_url'', ''country'',
      ''device'', ''ip_address'']"
  by (simp add: event_of_def)

lemma event_of_no_None: "PyNone \<notin> snd ` set (event_of timestamp w)"
  by (simp add: event_of_def)

lemma event_of_timestamp: "map_of (event_of timestamp w) ''timestamp'' = Some (PyDatetime timestamp)"
  by (simp add: event_of_def)

lemma event_of_page_url:
  "\<exists>p. map_of (event_of timestamp w) ''page_url'' = Some (PyStr p) \<and> p \<in> set PAGES"
proof -
  have "PAGES ! (py_random w 0 mod length PAGES) \<in> set PAGES"
    by (rule nth_mod_mem) (simp add: PAGES_def)
  moreover have "length PAGES = 9" by (simp add: PAGES_def)
  ultimately show ?thesis by (simp add: event_of_def)
qed

lemma event_of_country:
  "\<exists>c. map_of (event_of timestamp w) ''country'' = Some (PyStr c) \<and> c \<in> set COUNTRIES"
proof -
  have "COUNTRIES ! (py_random w 1 mod length COUNTRIES) \<in> set COUNTRIES"
    by (rule nth_mod_mem) (simp add: COUNTRIES_def)
  moreover have "length COUNTRIES = 9" by (simp add: COUNTRIES_def)
  ultimately show ?thesis by (simp add: event_of_def)
qed

lemma event_of_device:
  "\<exists>d. map_of (event_of timestamp w) ''device'' = Some (PyStr d) \<and> d \<in> set DEVICES"
proof -
  have "DEVICES ! (py_random w 2 mod length DEVICES) \<in> set DEVICES"
    by (rule nth_mod_mem) (simp add: DEVICES_def)
  moreover have "length DEVICES = 3" by (simp add: DEVICES_def)
  ultimately show ?thesis by (simp add: event_of_def)
qed

lemma tables_sizes:
  "length PAGES = 9 \<and> distinct PAGES \<and> length COUNTRIES = 9 \<and> distinct COUNTRIES \<and>
   set DEVICES = {''desktop'', ''mobile'', ''tablet''}"
  by (simp add: PAGES_def COUNTRIES_def DEVICES_def)

text \<open>
  Claim C6. Every event that \<^verbatim>\<open>_generate_event\<close> returns has exactly the eight keys, in
  order, none of them bound to \<^verbatim>\<open>None\<close>; its page is one of the nine pages, its country
  one of the nine country codes and its device one of the three devices. The call never
  raises.
\<close>

theorem generated_event_fields:
  "\<exists>e w'. generate_event timestamp w = (Inr e, w') \<and>
     map fst e = [''event_id'', ''user_id'', ''session_id'', ''timestamp'', ''page_url'',
                  ''country'', ''device'', ''ip_address''] \<and>
     PyNone \<notin> snd ` set e \<and>
     (\<exists>p. map_of e ''page_url'' = Some (PyStr p) \<and> p \<in> set PAGES) \<and>
     (\<exists>c. map_of e ''country'' = Some (PyStr c) \<and> c \<in> set COUNTRIES) \<and>
     (\<exists>d. map_of e ''device'' = Some (PyStr d) \<and> d \<in> set DEVICES) \<and>
     length PAGES = 9 \<and> distinct PAGES \<and> length COUNTRIES = 9 \<and> distinct COUNTRIES \<and>
     set DEVICES = {''desktop'', ''mobile'', ''tablet''}"
  using event_of_keys [of timestamp w] event_of_no_None [of timestamp w]
    event_of_page_url [of timestamp w] event_of_country [of timestamp w]
    event_of_device [of timestamp w] tables_sizes
  by (simp add: generate_event_eq)

subsection \<open>Validation\<close>

lemma DataSize_of_None_iff: "DataSize_of s = None \<longleftrightarrow> s \<notin> {''small'', ''medium'', ''large''}"
  by (auto simp: DataSize_of_def DataSize_members_def)

lemma invalid_size_message_text:
  "invalid_size_message = ''Invalid size. Must be one of ['' @ [CHR 0x27] @ ''small'' @ [CHR 0x27] @ '', '' @ [CHR 0x27] @ ''medium'' @ [CHR 0x27] @ '', '' @ [CHR 0x27] @ ''large'' @ [CHR 0x27] @ '']''"
  by (simp add: invalid_size_message_def repr_str_list_def DataSize_members_def)

text \<open>The formats a call works with: the default when the argument is \<^verbatim>\<open>None\<close>.\<close>

definition formats_of :: "string list option \<Rightarrow> string list" where
  "formats_of formats_arg = (case formats_arg of None \<Rightarrow> [''csv'', ''parquet''] | Some fs \<Rightarrow> fs)"

lemma invalid_size_raises:
  "DataSize_of size_arg = None \<Longrightarrow>
   generate_benchmark_data size_arg output_dir formats_arg seed incremental_days w =
     (Inl (ValueError_invalid_size invalid_size_message), w)"
  by (simp add: generate_benchmark_data_def py_raise_def)

lemma invalid_formats_raise:
  "DataSize_of size_arg = Some ds \<Longrightarrow> \<not> set (formats_of formats_arg) \<subseteq> supported_formats \<Longrightarrow>
   generate_benchmark_data size_arg output_dir formats_arg seed incremental_days w =
     (Inl (ValueError_unsupported_formats (set (formats_of formats_arg) - supported_formats)
        supported_formats), w)"
  by (auto simp: generate_benchmark_data_def py_raise_def formats_of_def Let_def split: option.splits)

text \<open>
  Claim C3. A size that is not one of the three tiers makes \<^verbatim>\<open>generate_benchmark_data\<close> raise
  the \<^verbatim>\<open>ValueError\<close> whose message lists the three tiers; a valid size with a format outside
  csv and parquet makes it raise the \<^verbatim>\<open>ValueError\<close> that carries the offending formats and
  the supported set. In both cases the world is returned as it was: no directory was
  created and no file written.
\<close>

theorem validation_fails_fast:
  "(size_arg \<notin> {''small'', ''medium'', ''large''} \<longrightarrow>
      generate_benchmark_data size_arg output_dir formats_arg seed incremental_days w =
        (Inl (ValueError_invalid_size invalid_size_message), w)) \<and>
   (size_arg \<in> {''small'', ''medium'', ''large''} \<and>
    \<not> set (formats_of formats_arg) \<subseteq> {''csv'', ''parquet''} \<longrightarrow>
      generate_benchmark_data size_arg output_dir formats_arg seed incremental_days w =
        (Inl (ValueError_unsupported_formats (set (formats_of formats_arg) - {''csv'', ''parquet''})
           {''csv'', ''parquet''}), w)) \<and>
   invalid_size_message = ''Invalid size. Must be one of ['' @ [CHR 0x27] @ ''small'' @ [CHR 0x27] @ '', '' @ [CHR 0x27] @ ''medium'' @ [CHR 0x27] @ '', '' @ [CHR 0x27] @ ''large'' @ [CHR 0x27] @ '']''"
proof (intro conjI impI)
  assume "size_arg \<notin> {''small'', ''medium'', ''large''}"
  then have "DataSize_of size_arg = None" by (simp add: DataSize_of_None_iff)
  then show "generate_benchmark_data size_arg output_dir formats_arg seed incremental_days w =
        (Inl (ValueError_invalid_size invalid_size_message), w)"
    by (rule invalid_size_raises)
next
  assume a: "size_arg \<in> {''small'', ''medium'', ''large''} \<and>
    \<not> set (formats_of formats_arg) \<subseteq> {''csv'', ''parquet''}"
  then have "DataSize_of size_arg \<noteq> None" by (simp add: DataSize_of_None_iff)
  then obtain ds where "DataSize_of size_arg = Some ds" by blast
  from invalid_formats_raise [OF this, of formats_arg] a
  show "generate_benchmark_data size_arg output_dir formats_arg seed incremental_days w =
        (Inl (ValueError_unsupported_formats (set (formats_of formats_arg) - {''csv'', ''parquet''})
           {''csv'', ''parquet''}), w)"
    by (simp add: supported_formats_def)
next
  show "invalid_size_message = ''Invalid size. Must be one of ['' @ [CHR 0x27] @ ''small'' @ [CHR 0x27] @ '', '' @ [CHR 0x27] @ ''medium'' @ [CHR 0x27] @ '', '' @ [CHR 0x27] @ ''large'' @ [CHR 0x27] @ '']''"
    by (rule invalid_size_message_text)
qed

text \<open>The two failures at \<^verbatim>\<open>size="tiny"\<close> and at \<^verbatim>\<open>formats=["xml"]\<close>.\<close>

theorem validation_fails_fast_witness:
  "generate_benchmark_data ''tiny'' ''out'' None (Some 42) 7 example_world =
     (Inl (ValueError_invalid_size invalid_size_message), example_world) \<and>
   generate_benchmark_data ''small'' ''out'' (Some [''xml'']) (Some 42) 7 example_world =
     (Inl (ValueError_unsupported_formats {''xml''} {''csv'', ''parquet''}), example_world)"
  using validation_fails_fast [of "''tiny''" "''out''" None "Some 42" 7 example_world]
    validation_fails_fast [of "''small''" "''out''" "Some [''xml'']" "Some 42" 7 example_world]
  by (simp add: formats_of_def)

subsection \<open>Batches\<close>

text \<open>The world after \<^verbatim>\<open>__init__\<close>.\<close>

definition seeded :: "int option \<Rightarrow> world \<Rightarrow> world" where
  "seeded seed w =
     (case seed of None \<Rightarrow> w
      | Some s \<Rightarrow> w\<lparr>py_random := mersenne w s, faker_random := mersenne w s\<rparr>)"

definition generator_of :: "DataSize \<Rightarrow> ClickstreamDataGenerator" where
  "generator_of sz = \<lparr> size_of_generator = sz, record_count = SIZE_RECORD_COUNTS sz \<rparr>"

lemma generator_init_eq: "generator_init sz seed w = (Inr (generator_of sz), seeded seed w)"
  by (cases seed)
    (simp_all add: generator_init_def generator_of_def seeded_def py_return_def py_bind_def
      Faker_seed_def random_seed_def)

lemma length_batch [simp]: "length (batch n hi base w) = n"
  by (induction n arbitrary: w) simp_all

lemma start_of_day_nonneg: "0 \<le> t \<Longrightarrow> 0 \<le> start_of_day t"
proof -
  assume "0 \<le> t"
  have "t mod US_PER_DAY \<le> t"
    using \<open>0 \<le> t\<close> by (simp add: US_PER_DAY_def zmod_le_nonneg_dividend)
  then show ?thesis by (simp add: start_of_day_def)
qed

lemma generate_incremental_data_eq:
  assumes "0 \<le> date" and "start_of_day date + 86400 * US_PER_SECOND \<le> datetime_max"
  shows "generate_incremental_data self date records_per_day w =
           (Inr (batch (nat records_per_day) 86400 (start_of_day date) w),
            after_events (nat records_per_day) w)"
proof -
  have "loop_safe 86400 (start_of_day date)"
    using assms start_of_day_nonneg [OF assms(1)] by (simp add: loop_safe_def)
  then show ?thesis
    by (simp add: generate_incremental_data_def events_loop_eq)
qed

lemma generate_bulk_data_eq:
  assumes "0 \<le> start_date" and "0 \<le> days" and "start_date + days * US_PER_DAY \<le> datetime_max"
  shows "generate_bulk_data self start_date days w =
           (Inr (batch (record_count self) (days * 86400) start_date w),
            after_events (record_count self) w)"
proof -
  have "days * US_PER_DAY \<le> datetime_max" using assms(1,3) by linarith
  then have d: "days \<le> 3652059"
    by (simp add: US_PER_DAY_def datetime_max_def MAXORDINAL_def)
  have s1: "timedelta_days days = Inr (days * US_PER_DAY)"
    using d assms(2) by (simp add: timedelta_days_def)
  have "0 \<le> days * US_PER_DAY" using assms(2) by (simp add: US_PER_DAY_def)
  then have s2: "datetime_add start_date (days * US_PER_DAY) = Inr (start_date + days * US_PER_DAY)"
    using assms(1,3) by (simp add: datetime_add_def)
  have s3: "total_seconds_int (days * US_PER_DAY) = days * 86400"
    using assms(2) by (simp add: total_seconds_int_def US_PER_DAY_def US_PER_SECOND_def)
  have "loop_safe (days * 86400) start_date"
    using assms d by (simp add: loop_safe_def US_PER_DAY_def US_PER_SECOND_def)
  then show ?thesis
    by (simp add: generate_bulk_data_def py_bind_def py_lift_def s1 s2 s3 events_loop_eq)
qed

lemma randint_InrD: "randint 0 hi w = (Inr r, w1) \<Longrightarrow> 0 \<le> r \<and> r \<le> hi"
proof -
  assume a: "randint 0 hi w = (Inr r, w1)"
  then have hi: "0 \<le> hi"
    by (auto simp: randint_def py_raise_def split: if_splits)
  from a have "r = int (py_random w 0) mod (hi + 1)"
    by (simp add: randint_eq [OF hi])
  moreover have "int (py_random w 0) mod (hi + 1) < hi + 1"
    using hi by (intro pos_mod_bound) simp
  moreover have "0 \<le> int (py_random w 0) mod (hi + 1)"
    using hi by simp
  ultimately show ?thesis by simp
qed

lemma py_lift_InrD: "py_lift x w = (Inr y, w1) \<Longrightarrow> x = Inr y"
  by (simp add: py_lift_def)

lemma timedelta_seconds_InrD: "timedelta_seconds s = Inr d \<Longrightarrow> d = s * US_PER_SECOND"
  by (simp add: timedelta_seconds_def split: if_splits)

lemma timedelta_days_InrD: "timedelta_days s = Inr d \<Longrightarrow> d = s * US_PER_DAY"
  by (simp add: timedelta_days_def split: if_splits)

lemma datetime_add_InrD: "datetime_add t d = Inr t' \<Longrightarrow> t' = t + d"
  by (simp add: datetime_add_def split: if_splits)

definition timestamp_within :: "datetime \<Rightarrow> datetime \<Rightarrow> event \<Rightarrow> bool" where
  "timestamp_within lo hi e \<longleftrightarrow>
     (case map_of e ''timestamp'' of Some (PyDatetime t) \<Rightarrow> lo \<le> t \<and> t \<le> hi | _ \<Rightarrow> False)"

lemma events_loop_timestamps:
  "events_loop n hi base w = (Inr events, w') \<Longrightarrow>
   \<forall>e \<in> set events. timestamp_within base (base + hi * US_PER_SECOND) e"
proof (induction n arbitrary: w events w')
  case 0
  then show ?case by (simp add: py_return_def)
next
  case (Suc n)
  from Suc.prems obtain r w1 d w2 t w3 e w4 rest w5 where
    r: "randint 0 hi w = (Inr r, w1)" and
    d: "py_lift (timedelta_seconds r) w1 = (Inr d, w2)" and
    t: "py_lift (datetime_add base d) w2 = (Inr t, w3)" and
    e: "generate_event t w3 = (Inr e, w4)" and
    rest: "events_loop n hi base w4 = (Inr rest, w5)" and
    k5: "py_return (e # rest) w5 = (Inr events, w')"
    by (auto dest!: py_bind_InrD)
  have "d = r * US_PER_SECOND"
    using py_lift_InrD [OF d] by (rule timedelta_seconds_InrD)
  moreover have "t = base + d"
    using py_lift_InrD [OF t] by (rule datetime_add_InrD)
  moreover have "0 \<le> r \<and> r \<le> hi" using r by (rule randint_InrD)
  ultimately have "base \<le> t \<and> t \<le> base + hi * US_PER_SECOND"
    by (simp add: US_PER_SECOND_def)
  moreover have "e = event_of t w3" using e by (simp add: generate_event_eq)
  ultimately have "timestamp_within base (base + hi * US_PER_SECOND) e"
    by (simp add: timestamp_within_def event_of_def)
  moreover have "events = e # rest" using k5 by (simp add: py_return_def)
  ultimately show ?case using Suc.IH [OF rest] by simp
qed

lemma datetime_2024_01_01: "datetime_ymd 2024 1 1 = 63839664000000000"
  by (simp add: datetime_ymd_def ymd2ord_def days_before_year_def days_before_month_def
      DAYS_BEFORE_MONTH_def US_PER_DAY_def)

lemma datetime_2024_02_01: "datetime_ymd 2024 2 1 = 63842342400000000"
  by (simp add: datetime_ymd_def ymd2ord_def days_before_year_def days_before_month_def
      DAYS_BEFORE_MONTH_def US_PER_DAY_def)

lemma datetime_2024_02_02: "datetime_ymd 2024 2 2 = 63842428800000000"
  by (simp add: datetime_ymd_def ymd2ord_def days_before_year_def days_before_month_def
      DAYS_BEFORE_MONTH_def US_PER_DAY_def)

lemma datetime_max_value: "datetime_max = 315537897599999999"
  by (simp add: datetime_max_def MAXORDINAL_def US_PER_DAY_def)

lemma record_count_generator_of [simp]: "record_count (generator_of sz) = SIZE_RECORD_COUNTS sz"
  by (simp add: generator_of_def)

lemma SIZE_RECORD_COUNTS_pos: "0 < SIZE_RECORD_COUNTS sz"
  by (cases sz) simp_all

text \<open>
  Claim C2, amended. For every tier and every start date from which thirty days can be
  added without leaving the \<^verbatim>\<open>datetime\<close> range, \<^verbatim>\<open>generate_bulk_data\<close> of the generator that
  \<^verbatim>\<open>__init__\<close> builds returns a batch of exactly the tier's record count (100000, 10000000
  or 100000000), which is never empty.
\<close>

theorem bulk_batch_length:
  assumes "0 \<le> start_date" and "start_date + 30 * US_PER_DAY \<le> datetime_max"
  shows "\<exists>events w'.
           fst (generator_init sz seed w0) = Inr (generator_of sz) \<and>
           generate_bulk_data (generator_of sz) start_date 30 w = (Inr events, w') \<and>
           length events = SIZE_RECORD_COUNTS sz \<and> events \<noteq> [] \<and>
           map SIZE_RECORD_COUNTS [SMALL, MEDIUM, LARGE] = [100000, 10000000, 100000000]"
proof -
  have "generate_bulk_data (generator_of sz) start_date 30 w =
          (Inr (batch (SIZE_RECORD_COUNTS sz) (30 * 86400) start_date w),
           after_events (SIZE_RECORD_COUNTS sz) w)"
    using generate_bulk_data_eq [OF assms(1) _ assms(2), of "generator_of sz" w] by simp
  moreover have "batch (SIZE_RECORD_COUNTS sz) (30 * 86400) start_date w \<noteq> []"
    using SIZE_RECORD_COUNTS_pos [of sz] length_batch [of "SIZE_RECORD_COUNTS sz" "30 * 86400" start_date w]
    by (metis length_0_conv less_numeral_extra(3))
  ultimately show ?thesis
    by (simp add: generator_init_eq)
qed

text \<open>The small tier from 2024-01-01, as \<^verbatim>\<open>generate_benchmark_data\<close> calls it.\<close>

theorem bulk_batch_length_witness:
  "\<exists>events w'.
     generate_bulk_data (generator_of SMALL) (datetime_ymd 2024 1 1) 30 example_world = (Inr events, w') \<and>
     length events = 100000 \<and> events \<noteq> []"
proof -
  have a: "0 \<le> datetime_ymd 2024 1 1" unfolding datetime_2024_01_01 by simp
  have b: "datetime_ymd 2024 1 1 + 30 * US_PER_DAY \<le> datetime_max"
    unfolding datetime_2024_01_01 datetime_max_value US_PER_DAY_def by simp
  show ?thesis
    using bulk_batch_length [OF a b, of SMALL None example_world example_world] by auto
qed

text \<open>From the last representable instant the end of the window cannot be computed: the
  call raises \<^verbatim>\<open>OverflowError\<close> and returns no batch.\<close>

theorem bulk_batch_overflow_counterexample:
  "fst (generate_bulk_data (generator_of SMALL) datetime_max 30 example_world) = Inl OverflowError"
  by (simp add: generate_bulk_data_def py_bind_def py_lift_def timedelta_days_def datetime_add_def
      US_PER_DAY_def)

text \<open>
  Claim C5, amended. For every date before 9999-12-31 and every \<^verbatim>\<open>records_per_day\<close>,
  \<^verbatim>\<open>generate_incremental_data\<close> returns a batch; it has exactly \<^verbatim>\<open>records_per_day\<close> events
  when that number is not negative, and is empty when it is.
\<close>

theorem incremental_batch_length:
  assumes "0 \<le> date" and "start_of_day date + 86400 * US_PER_SECOND \<le> datetime_max"
  shows "\<exists>events w'.
           generate_incremental_data self date records_per_day w = (Inr events, w') \<and>
           int (length events) = max 0 records_per_day"
  by (simp add: generate_incremental_data_eq [OF assms])

lemma start_of_day_midnight: "start_of_day 63842342400000000 = 63842342400000000"
  by (simp add: start_of_day_def US_PER_DAY_def)

lemma start_of_day_2024_02_01: "start_of_day (datetime_ymd 2024 2 1) = datetime_ymd 2024 2 1"
  unfolding datetime_2024_02_01 by (rule start_of_day_midnight)

theorem incremental_batch_length_witness:
  "\<exists>events w'.
     generate_incremental_data (generator_of SMALL) (datetime_ymd 2024 2 1) 1000 example_world =
       (Inr events, w') \<and>
     length events = 1000"
proof -
  have a: "0 \<le> datetime_ymd 2024 2 1" unfolding datetime_2024_02_01 by simp
  have b: "start_of_day (datetime_ymd 2024 2 1) + 86400 * US_PER_SECOND \<le> datetime_max"
    unfolding datetime_2024_02_01 start_of_day_midnight datetime_max_value US_PER_SECOND_def
    by simp
  show ?thesis
    using incremental_batch_length [OF a b, of "generator_of SMALL" 1000 example_world] by auto
qed

text \<open>\<^verbatim>\<open>range(-1)\<close> is empty: asked for \<open>-1\<close> records, the call returns no event at all.\<close>

theorem incremental_negative_counterexample:
  "fst (generate_incremental_data (generator_of SMALL) (datetime_ymd 2024 2 1) (- 1) example_world)
     = Inr []"
  by (simp add: generate_incremental_data_def py_return_def)

lemma generate_bulk_data_timestamps:
  assumes "generate_bulk_data self start_date 30 w = (Inr events, w')"
  shows "\<forall>e \<in> set events. timestamp_within start_date (start_date + 30 * US_PER_DAY) e"
proof -
  from assms obtain delta w1 end_date w2 where
    d: "py_lift (timedelta_days 30) w = (Inr delta, w1)" and
    e: "py_lift (datetime_add start_date delta) w1 = (Inr end_date, w2)" and
    l: "events_loop (record_count self) (total_seconds_int (end_date - start_date)) start_date w2
          = (Inr events, w')"
    unfolding generate_bulk_data_def by (auto dest!: py_bind_InrD)
  have "delta = 30 * US_PER_DAY"
    using py_lift_InrD [OF d] by (rule timedelta_days_InrD)
  moreover have "end_date = start_date + delta"
    using py_lift_InrD [OF e] by (rule datetime_add_InrD)
  ultimately have "total_seconds_int (end_date - start_date) * US_PER_SECOND = 30 * US_PER_DAY"
    by (simp add: total_seconds_int_def US_PER_DAY_def US_PER_SECOND_def)
  with events_loop_timestamps [OF l] show ?thesis by simp
qed

lemma generate_incremental_data_timestamps:
  assumes "generate_incremental_data self date records_per_day w = (Inr events, w')"
  shows "\<forall>e \<in> set events.
           timestamp_within (start_of_day date) (start_of_day date + 86400 * US_PER_SECOND) e"
  using assms events_loop_timestamps unfolding generate_incremental_data_def by blast

text \<open>A world whose next \<^verbatim>\<open>random\<close> output makes \<^verbatim>\<open>randint(0, 86400)\<close> return 86400.\<close>

definition late_world :: world where
  "late_world = example_world\<lparr>py_random := (\<lambda>i. 86400)\<rparr>"

lemma late_timestamp:
  "\<exists>e. fst (generate_incremental_data (generator_of SMALL) (datetime_ymd 2024 2 1) 1 late_world) = Inr [e] \<and>
     map_of e ''timestamp'' = Some (PyDatetime (datetime_ymd 2024 2 2))"
proof -
  have a: "0 \<le> datetime_ymd 2024 2 1" unfolding datetime_2024_02_01 by simp
  have b: "start_of_day (datetime_ymd 2024 2 1) + 86400 * US_PER_SECOND \<le> datetime_max"
    unfolding datetime_2024_02_01 start_of_day_midnight datetime_max_value US_PER_SECOND_def
    by simp
  have c: "first_timestamp 86400 (start_of_day (datetime_ymd 2024 2 1)) late_world = datetime_ymd 2024 2 2"
    unfolding datetime_2024_02_01 datetime_2024_02_02 start_of_day_midnight
    by (simp add: first_timestamp_def late_world_def US_PER_SECOND_def)
  have "batch (Suc 0) 86400 (start_of_day (datetime_ymd 2024 2 1)) late_world =
          [event_of (datetime_ymd 2024 2 2) (after_draws 1 0 0 late_world)]"
    by (simp add: c)
  then show ?thesis
    using generate_incremental_data_eq [OF a b, of "generator_of SMALL" 1 late_world]
    by (simp add: event_of_timestamp)
qed

text \<open>
  Claim C4. Every event of a batch that \<^verbatim>\<open>generate_bulk_data\<close> returns for \<^verbatim>\<open>days=30\<close> has its
  timestamp between \<^verbatim>\<open>start_date\<close> and \<^verbatim>\<open>start_date\<close> plus thirty days, both included; every
  event of a batch that \<^verbatim>\<open>generate_incremental_data\<close> returns has its timestamp between
  midnight of the day and midnight plus 86400 seconds, both included. The upper end is
  reached: there is a run for 2024-02-01 whose event is stamped 2024-02-02T00:00:00.
\<close>

theorem timestamps_in_window:
  "(generate_bulk_data self start_date 30 w = (Inr events, w') \<longrightarrow>
      (\<forall>e \<in> set events. timestamp_within start_date (start_date + 30 * US_PER_DAY) e)) \<and>
   (generate_incremental_data self date records_per_day w = (Inr daily_events, w'') \<longrightarrow>
      (\<forall>e \<in> set daily_events.
         timestamp_within (start_of_day date) (start_of_day date + 86400 * US_PER_SECOND) e)) \<and>
   (\<exists>e. fst (generate_incremental_data (generator_of SMALL) (datetime_ymd 2024 2 1) 1 late_world)
           = Inr [e] \<and>
         map_of e ''timestamp'' = Some (PyDatetime (datetime_ymd 2024 2 2)))"
  using generate_bulk_data_timestamps [of self start_date w events w']
    generate_incremental_data_timestamps [of self date records_per_day w daily_events w'']
    late_timestamp
  by blast

text \<open>The small tier from 2024-01-01 and the thousand events of 2024-02-01: both calls
  return, and all their timestamps are in the window.\<close>

theorem timestamps_in_window_witness:
  "(\<exists>events w'.
      generate_bulk_data (generator_of SMALL) (datetime_ymd 2024 1 1) 30 example_world = (Inr events, w') \<and>
      events \<noteq> [] \<and>
      (\<forall>e \<in> set events.
         timestamp_within (datetime_ymd 2024 1 1) (datetime_ymd 2024 1 1 + 30 * US_PER_DAY) e)) \<and>
   (\<exists>daily_events w''.
      generate_incremental_data (generator_of SMALL) (datetime_ymd 2024 2 1) 1000 example_world =
        (Inr daily_events, w'') \<and>
      daily_events \<noteq> [] \<and>
      (\<forall>e \<in> set daily_events.
         timestamp_within (datetime_ymd 2024 2 1) (datetime_ymd 2024 2 1 + 86400 * US_PER_SECOND) e))"
proof -
  have a: "0 \<le> datetime_ymd 2024 1 1" unfolding datetime_2024_01_01 by simp
  have b: "datetime_ymd 2024 1 1 + 30 * US_PER_DAY \<le> datetime_max"
    unfolding datetime_2024_01_01 datetime_max_value US_PER_DAY_def by simp
  have c: "0 \<le> datetime_ymd 2024 2 1" unfolding datetime_2024_02_01 by simp
  have d: "start_of_day (datetime_ymd 2024 2 1) + 86400 * US_PER_SECOND \<le> datetime_max"
    unfolding datetime_2024_02_01 start_of_day_midnight datetime_max_value US_PER_SECOND_def
    by simp
  obtain events w' where
    e: "generate_bulk_data (generator_of SMALL) (datetime_ymd 2024 1 1) 30 example_world = (Inr events, w')"
    and e': "events \<noteq> []"
    using generate_bulk_data_eq [OF a _ b, of "generator_of SMALL" example_world]
      length_batch [of 100000 "30 * 86400" "datetime_ymd 2024 1 1" example_world]
    by (metis (no_types, lifting) SIZE_RECORD_COUNTS.simps(1) length_0_conv record_count_generator_of
        zero_le_numeral zero_neq_numeral)
  obtain daily_events w'' where
    f: "generate_incremental_data (generator_of SMALL) (datetime_ymd 2024 2 1) 1000 example_world =
          (Inr daily_events, w'')"
    and f': "daily_events \<noteq> []"
    using generate_incremental_data_eq [OF c d, of "generator_of SMALL" 1000 example_world]
      length_batch [of 1000 86400 "start_of_day (datetime_ymd 2024 2 1)" example_world]
    by (metis (no_types, lifting) length_0_conv nat_numeral zero_neq_numeral)
  from timestamps_in_window [of "generator_of SMALL" "datetime_ymd 2024 1 1" example_world events w'
      "datetime_ymd 2024 2 1" 1000 daily_events w''] e f
  have "(\<forall>e \<in> set events.
           timestamp_within (datetime_ymd 2024 1 1) (datetime_ymd 2024 1 1 + 30 * US_PER_DAY) e)"
    and "(\<forall>e \<in> set daily_events.
           timestamp_within (datetime_ymd 2024 2 1) (datetime_ymd 2024 2 1 + 86400 * US_PER_SECOND) e)"
    by (simp_all add: start_of_day_2024_02_01)
  with e e' f f' show ?thesis by blast
qed

section \<open>What a run computes\<close>

text \<open>
  The result of \<^verbatim>\<open>generate_benchmark_data\<close> written as pure functions of the world it starts
  in, for the runs in which no date leaves the \<^verbatim>\<open>datetime\<close> range. The lemmas below show
  that the program computes exactly these.
\<close>

definition make_file :: "string \<Rightarrow> event list \<Rightarrow> disk_file" where
  "make_file format_type events =
     (if format_type = ''csv'' then CSV_file (df_columns (DataFrame_of events)) events
      else Parquet_file (df_columns (DataFrame_of events)) events)"

definition bulk_path :: "string \<Rightarrow> string \<Rightarrow> string \<Rightarrow> path" where
  "bulk_path output_dir size_arg format_type =
     path_div (path_div (Path output_dir) ''bulk'') (''bulk_data_'' @ size_arg @ ''.'' @ format_type)"

definition day_date :: "int \<Rightarrow> datetime" where
  "day_date day = datetime_ymd 2024 2 1 + day * US_PER_DAY"

definition incremental_path :: "string \<Rightarrow> string \<Rightarrow> string \<Rightarrow> int \<Rightarrow> path" where
  "incremental_path output_dir size_arg format_type day =
     path_div (path_div (Path output_dir) ''incremental'')
       (''incremental_'' @ strftime_Ymd (day_date day) @ ''_'' @ size_arg @ ''.'' @ format_type)"

definition day_events :: "int \<Rightarrow> world \<Rightarrow> event list" where
  "day_events day w = batch 1000 86400 (start_of_day (day_date day)) w"

definition day_world :: "string \<Rightarrow> string \<Rightarrow> string \<Rightarrow> int \<Rightarrow> world \<Rightarrow> world" where
  "day_world output_dir size_arg format_type day w =
     (after_events 1000 w)
       \<lparr>fs_files := (fs_files w)(incremental_path output_dir size_arg format_type day \<mapsto>
          make_file format_type (day_events day w))\<rparr>"

definition day_entry :: "string \<Rightarrow> string \<Rightarrow> string \<Rightarrow> int \<Rightarrow> world \<Rightarrow> inc_file_meta" where
  "day_entry output_dir size_arg format_type day w =
     \<lparr> meta_path = path_str (incremental_path output_dir size_arg format_type day),
       meta_records = 1000,
       meta_size_mb = size_in_mb (st_size w (make_file format_type (day_events day w))),
       meta_date = strftime_Ymd (day_date day) \<rparr>"

fun loop_entries :: "('a \<Rightarrow> world \<Rightarrow> 'b) \<Rightarrow> ('a \<Rightarrow> world \<Rightarrow> world) \<Rightarrow> 'a list \<Rightarrow> world \<Rightarrow> 'b list" where
  "loop_entries entry step [] w = []"
| "loop_entries entry step (x # xs) w = entry x w # loop_entries entry step xs (step x w)"

definition bulk_written :: "string \<Rightarrow> string \<Rightarrow> event list \<Rightarrow> string \<Rightarrow> world \<Rightarrow> world" where
  "bulk_written output_dir size_arg bulk_events format_type w =
     w\<lparr>fs_files := (fs_files w)(bulk_path output_dir size_arg format_type \<mapsto>
          make_file format_type bulk_events)\<rparr>"

definition format_world :: "string \<Rightarrow> string \<Rightarrow> event list \<Rightarrow> int \<Rightarrow> string \<Rightarrow> world \<Rightarrow> world" where
  "format_world output_dir size_arg bulk_events incremental_days format_type w =
     fold (day_world output_dir size_arg format_type) (py_range incremental_days)
       (bulk_written output_dir size_arg bulk_events format_type w)"

definition format_entry ::
  "string \<Rightarrow> string \<Rightarrow> event list \<Rightarrow> int \<Rightarrow> string \<Rightarrow> world \<Rightarrow> format_results" where
  "format_entry output_dir size_arg bulk_events incremental_days format_type w =
     \<lparr> fr_bulk = \<lparr> meta_path = path_str (bulk_path output_dir size_arg format_type),
                   meta_records = length bulk_events,
                   meta_size_mb = size_in_mb (st_size w (make_file format_type bulk_events)) \<rparr>,
       fr_incremental =
         loop_entries (day_entry output_dir size_arg format_type)
           (day_world output_dir size_arg format_type) (py_range incremental_days)
           (bulk_written output_dir size_arg bulk_events format_type w) \<rparr>"

fun files_after ::
  "(string \<Rightarrow> world \<Rightarrow> format_results) \<Rightarrow> (string \<Rightarrow> world \<Rightarrow> world) \<Rightarrow> string list
     \<Rightarrow> (string \<times> format_results) list \<Rightarrow> world \<Rightarrow> (string \<times> format_results) list" where
  "files_after entry step [] files w = files"
| "files_after entry step (f # fs) files w =
     files_after entry step fs (AList.update f (entry f w) files) (step f w)"

text \<open>The world in which the bulk batch is drawn: directories made, generators seeded.\<close>

definition prepared :: "string \<Rightarrow> int option \<Rightarrow> world \<Rightarrow> world" where
  "prepared output_dir seed w =
     seeded seed (snd (mkdir (path_div (Path output_dir) ''incremental'')
                    (snd (mkdir (path_div (Path output_dir) ''bulk'') w))))"

definition bulk_batch :: "DataSize \<Rightarrow> string \<Rightarrow> int option \<Rightarrow> world \<Rightarrow> event list" where
  "bulk_batch data_size output_dir seed w =
     batch (SIZE_RECORD_COUNTS data_size) (30 * 86400) (datetime_ymd 2024 1 1)
       (prepared output_dir seed w)"

definition after_bulk :: "DataSize \<Rightarrow> string \<Rightarrow> int option \<Rightarrow> world \<Rightarrow> world" where
  "after_bulk data_size output_dir seed w =
     after_events (SIZE_RECORD_COUNTS data_size) (prepared output_dir seed w)"

text \<open>The last day index whose whole day, the following midnight included, is a
  \<^verbatim>\<open>datetime\<close>: 9999-12-30.\<close>

definition MAX_DAY :: int where
  "MAX_DAY = 2913141"

subsection \<open>One file\<close>

lemma df_rows_DataFrame_of [simp]: "df_rows (DataFrame_of events) = events"
  by (simp add: DataFrame_of_def)

lemma length_day_events [simp]: "length (day_events day w) = 1000"
  by (simp add: day_events_def)

lemma write_frame_eq:
  "write_frame format_type (DataFrame_of events) p w =
     (Inr (), w\<lparr>fs_files := (fs_files w)(p \<mapsto> make_file format_type events)\<rparr>)"
  by (simp add: write_frame_def write_csv_def write_parquet_def make_file_def)

lemma after_events_fields [simp]:
  "fs_files (after_events n w) = fs_files w"
  "fs_dirs (after_events n w) = fs_dirs w"
  "st_size (after_events n w) = st_size w"
  "mersenne (after_events n w) = mersenne w"
  "py_random (after_events n w) = tape_drop (4 * n) (py_random w)"
  "faker_random (after_events n w) = tape_drop n (faker_random w)"
  "os_urandom (after_events n w) = tape_drop (48 * n) (os_urandom w)"
  by (simp_all add: after_events_def)

lemma day_date_bounds:
  assumes "0 \<le> day" and "day \<le> MAX_DAY"
  shows "0 \<le> day_date day" and "day_date day + 86400 * US_PER_SECOND \<le> datetime_max"
    and "datetime_add (datetime_ymd 2024 2 1) (day * US_PER_DAY) = Inr (day_date day)"
    and "timedelta_days day = Inr (day * US_PER_DAY)"
proof -
  have d: "0 \<le> day * 86400000000" "day * 86400000000 \<le> 2913141 * 86400000000"
    using assms by (simp_all add: MAX_DAY_def)
  show 1: "0 \<le> day_date day"
    using d unfolding day_date_def datetime_2024_02_01 US_PER_DAY_def by simp
  show 2: "day_date day + 86400 * US_PER_SECOND \<le> datetime_max"
    using d unfolding day_date_def datetime_2024_02_01 US_PER_DAY_def US_PER_SECOND_def
      datetime_max_value by simp
  have "day_date day \<le> datetime_max" using 2 by (simp add: US_PER_SECOND_def)
  with 1 show "datetime_add (datetime_ymd 2024 2 1) (day * US_PER_DAY) = Inr (day_date day)"
    by (simp add: datetime_add_def day_date_def)
  show "timedelta_days day = Inr (day * US_PER_DAY)"
    using assms by (simp add: timedelta_days_def MAX_DAY_def)
qed

lemma incremental_step_eq:
  assumes "0 \<le> day" and "day \<le> MAX_DAY"
  shows "incremental_step generator size_arg format_type (path_div (Path output_dir) ''incremental'')
           (datetime_ymd 2024 2 1) day w =
         (Inr (day_entry output_dir size_arg format_type day w),
          day_world output_dir size_arg format_type day w)"
proof -
  note b = day_date_bounds [OF assms]
  have sod: "start_of_day (day_date day) + 86400 * US_PER_SECOND \<le> datetime_max"
  proof -
    have "0 \<le> day_date day mod US_PER_DAY" by (simp add: US_PER_DAY_def)
    then have "start_of_day (day_date day) \<le> day_date day" by (simp add: start_of_day_def)
    with b(2) show ?thesis by simp
  qed
  have g: "generate_incremental_data generator (day_date day) 1000 w =
             (Inr (day_events day w), after_events 1000 w)"
    using generate_incremental_data_eq [OF b(1) sod, of generator 1000 w]
    by (simp add: day_events_def)
  have st: "stat_st_size p ((after_events 1000 w)\<lparr>fs_files := (fs_files w)(p \<mapsto> f)\<rparr>) =
      (Inr (st_size w f), (after_events 1000 w)\<lparr>fs_files := (fs_files w)(p \<mapsto> f)\<rparr>)" for p f
    by (simp add: stat_st_size_def)
  show ?thesis
    unfolding incremental_step_def
    by (simp add: py_bind_def py_lift_def b(3,4) g write_frame_eq st py_return_def Let_def
        day_entry_def day_world_def incremental_path_def)
qed

end
